theory Spec2Isabelle
  imports Complex_Main
begin

section \<open>Market regime classifier and decision gate\<close>

text \<open>
  A shallow embedding of \<^verbatim>\<open>src/regime_classifier.py\<close> and \<^verbatim>\<open>src/decision_gate.py\<close>.

  Numbers. A pandas float series is a list of \<open>real option\<close>: \<open>None\<close> is a missing value
  (NaN), \<open>Some x\<close> a number. Floating-point arithmetic is idealised to the reals, so
  rounding is outside the model; every comparison the classifier makes is kept as the
  source writes it (strict or non-strict, false on a missing operand). Window sizes are
  Python integers, unbounded, and the places where the program turns them into machine
  numbers are failure branches of the model.
  The input price series is a list of numbers (no missing values); zero and negative prices
  are admitted, since the source accepts them.

  Library behaviour written out:
  \<^item> \<^verbatim>\<open>pct_change\<close>: missing at position 0; a quotient by a zero price is infinite or NaN,
    and the rolling window treats both as missing, so the model gives \<open>None\<close> there;
  \<^item> \<^verbatim>\<open>rolling(w)\<close>: rejects a negative window with a ValueError; the window bounds of a
    series that is not empty are 64-bit integers, so a window beyond that range fails as
    well (modelled as an OverflowError); with the default \<^verbatim>\<open>min_periods = w\<close> a statistic
    is defined at position \<open>t\<close> only when the \<open>w\<close> trailing entries exist and none is
    missing; a window of size 0 never yields a value;
  \<^item> \<^verbatim>\<open>std\<close>: sample standard deviation (one degree of freedom removed), so missing for
    fewer than two observations;
  \<^item> \<^verbatim>\<open>shift(k)\<close>: the value \<open>k\<close> positions earlier (later for negative \<open>k\<close>), missing
    outside the series; the offset is turned into a 64-bit integer when there is something
    to move, which fails with an OverflowError beyond that range;
  \<^item> \<^verbatim>\<open>float(k)\<close> of a Python integer: an OverflowError when \<open>k\<close> rounds beyond the largest
    double, that is when \<open>2^1024 - 2^970 \<le> |k|\<close>; otherwise the model takes the integer
    itself, leaving the rounding out;
  \<^item> a comparison of two series is false wherever an operand is missing, and \<^verbatim>\<open>~\<close> negates
    the resulting boolean mask pointwise.
\<close>

subsection \<open>Configuration\<close>

datatype error = ValueError | OverflowError | SyntaxError

record RegimeConfig =
  lookback_vol :: int
  lookback_trend :: int
  typical_vol_window :: int
  vol_mult_high :: real
  slope_threshold :: real

definition default_config :: RegimeConfig where
  "default_config =
     \<lparr>lookback_vol = 20, lookback_trend = 40, typical_vol_window = 100,
      vol_mult_high = 3 / 2, slope_threshold = 0\<rparr>"

type_synonym series = "real option list"

subsection \<open>Series primitives\<close>

definition int64_range :: "int \<Rightarrow> bool" where
  "int64_range k \<longleftrightarrow> - (2 ^ 63) \<le> k \<and> k < 2 ^ 63"

definition float_limit :: int where
  "float_limit = 2 ^ 1024 - 2 ^ 970"

definition float_of_int :: "int \<Rightarrow> error + real" where
  "float_of_int k = (if float_limit \<le> \<bar>k\<bar> then Inl OverflowError else Inr (real_of_int k))"

definition pct :: "real \<Rightarrow> real \<Rightarrow> real option" where
  "pct prev cur = (if prev = 0 then None else Some (cur / prev - 1))"

definition simple_returns :: "real list \<Rightarrow> series" where
  "simple_returns close =
     map (\<lambda>t. if t = 0 then None else pct (close ! (t - 1)) (close ! t)) [0..<length close]"

definition window_at :: "nat \<Rightarrow> 'a option list \<Rightarrow> nat \<Rightarrow> 'a list option" where
  "window_at w xs t =
     (if w = 0 \<or> t + 1 < w then None else those (take w (drop (t + 1 - w) xs)))"

definition mean :: "real list \<Rightarrow> real" where
  "mean ys = sum_list ys / real (length ys)"

definition sample_std :: "real list \<Rightarrow> real" where
  "sample_std ys = sqrt (sum_list (map (\<lambda>y. (y - mean ys)\<^sup>2) ys) / real (length ys - 1))"

definition rolling_std :: "nat \<Rightarrow> series \<Rightarrow> series" where
  "rolling_std w xs =
     map (\<lambda>t. case window_at w xs t of
                 None \<Rightarrow> None
               | Some ys \<Rightarrow> if length ys < 2 then None else Some (sample_std ys))
         [0..<length xs]"

definition median :: "real list \<Rightarrow> real" where
  "median ys =
     (let s = sort ys; n = length s
      in if odd n then s ! (n div 2) else (s ! (n div 2 - 1) + s ! (n div 2)) / 2)"

definition rolling_median_nat :: "nat \<Rightarrow> series \<Rightarrow> series" where
  "rolling_median_nat w xs = map (\<lambda>t. map_option median (window_at w xs t)) [0..<length xs]"

definition rolling_window :: "series \<Rightarrow> int \<Rightarrow> error + nat" where
  "rolling_window xs window =
     (if window < 0 then Inl ValueError
      else if xs \<noteq> [] \<and> \<not> int64_range window then Inl OverflowError
      else Inr (nat window))"

definition rolling_median :: "series \<Rightarrow> int \<Rightarrow> error + series" where
  "rolling_median xs window =
     (case rolling_window xs window of
        Inl e \<Rightarrow> Inl e
      | Inr w \<Rightarrow> Inr (rolling_median_nat w xs))"

definition rolling_volatility :: "series \<Rightarrow> int \<Rightarrow> error + series" where
  "rolling_volatility returns window =
     (case rolling_window returns window of
        Inl e \<Rightarrow> Inl e
      | Inr w \<Rightarrow> Inr (rolling_std w returns))"

definition shifted :: "int \<Rightarrow> real list \<Rightarrow> series" where
  "shifted k close =
     map (\<lambda>t. let j = int t - k
               in if 0 \<le> j \<and> j < int (length close) then Some (close ! nat j) else None)
         [0..<length close]"

definition shift_series :: "int \<Rightarrow> real list \<Rightarrow> error + series" where
  "shift_series k close =
     (if k \<noteq> 0 \<and> close \<noteq> [] \<and> \<not> int64_range k then Inl OverflowError
      else Inr (shifted k close))"

definition slope_values :: "real list \<Rightarrow> series \<Rightarrow> real \<Rightarrow> series" where
  "slope_values close sh d =
     map2 (\<lambda>c s. case s of
                    None \<Rightarrow> None
                  | Some p \<Rightarrow> if d = 0 then None else Some ((c - p) / d))
          close sh"

definition simple_slope :: "real list \<Rightarrow> int \<Rightarrow> error + series" where
  "simple_slope close lookback =
     (case shift_series lookback close of
        Inl e \<Rightarrow> Inl e
      | Inr sh \<Rightarrow>
          (case float_of_int lookback of
             Inl e \<Rightarrow> Inl e
           | Inr d \<Rightarrow> Inr (slope_values close sh d)))"

definition abs_series :: "series \<Rightarrow> series" where
  "abs_series xs = map (map_option abs) xs"

definition scale_series :: "series \<Rightarrow> real \<Rightarrow> series" where
  "scale_series xs m = map (map_option (\<lambda>x. x * m)) xs"

definition gt_opt :: "real option \<Rightarrow> real option \<Rightarrow> bool" where
  "gt_opt a b = (case a of None \<Rightarrow> False | Some x \<Rightarrow> (case b of None \<Rightarrow> False | Some y \<Rightarrow> x > y))"

definition le_opt :: "real option \<Rightarrow> real option \<Rightarrow> bool" where
  "le_opt a b = (case a of None \<Rightarrow> False | Some x \<Rightarrow> (case b of None \<Rightarrow> False | Some y \<Rightarrow> x \<le> y))"

definition gt_series :: "series \<Rightarrow> series \<Rightarrow> bool list" where
  "gt_series xs ys = map2 gt_opt xs ys"

definition le_series :: "series \<Rightarrow> series \<Rightarrow> bool list" where
  "le_series xs ys = map2 le_opt xs ys"

definition not_mask :: "bool list \<Rightarrow> bool list" where
  "not_mask m = map Not m"

definition and_mask :: "bool list \<Rightarrow> bool list \<Rightarrow> bool list" where
  "and_mask a b = map2 (\<and>) a b"

definition assign_mask :: "string list \<Rightarrow> bool list \<Rightarrow> string \<Rightarrow> string list" where
  "assign_mask labels msk v = map2 (\<lambda>l b. if b then v else l) labels msk"

subsection \<open>The classifier\<close>

definition min_bars_needed :: "RegimeConfig \<Rightarrow> int" where
  "min_bars_needed cfg =
     max (lookback_trend cfg + 1) (typical_vol_window cfg + lookback_vol cfg + 1)"

definition threshold_series :: "real list \<Rightarrow> RegimeConfig \<Rightarrow> series \<Rightarrow> series" where
  "threshold_series close cfg slope =
     (if slope_threshold cfg \<le> 0 then rolling_median_nat 200 (abs_series slope)
      else replicate (length close) (Some (slope_threshold cfg)))"

definition volatile_mask :: "series \<Rightarrow> series \<Rightarrow> real \<Rightarrow> bool list" where
  "volatile_mask vol typical_vol m = gt_series vol (scale_series typical_vol m)"

definition trend_mask :: "bool list \<Rightarrow> series \<Rightarrow> series \<Rightarrow> bool list" where
  "trend_mask vm slope thr = and_mask (not_mask vm) (gt_series (abs_series slope) thr)"

definition range_mask :: "bool list \<Rightarrow> series \<Rightarrow> series \<Rightarrow> bool list" where
  "range_mask vm slope thr = and_mask (not_mask vm) (le_series (abs_series slope) thr)"

definition label_masks ::
  "string list \<Rightarrow> series \<Rightarrow> series \<Rightarrow> series \<Rightarrow> series \<Rightarrow> real \<Rightarrow> string list" where
  "label_masks labels vol typical_vol slope thr m =
     (let vm = volatile_mask vol typical_vol m;
          tm = trend_mask vm slope thr;
          rm = range_mask vm slope thr
      in assign_mask (assign_mask (assign_mask labels vm ''VOLATILE'') tm ''TREND'') rm ''RANGE'')"

definition config_or_default :: "RegimeConfig option \<Rightarrow> RegimeConfig" where
  "config_or_default cfg_opt = (case cfg_opt of None \<Rightarrow> default_config | Some c \<Rightarrow> c)"

definition classify_regimes :: "real list \<Rightarrow> RegimeConfig option \<Rightarrow> error + string list" where
  "classify_regimes close cfg_opt =
     (let cfg = config_or_default cfg_opt;
          r = simple_returns close
      in case rolling_volatility r (lookback_vol cfg) of
           Inl e \<Rightarrow> Inl e
         | Inr vol \<Rightarrow>
             (case rolling_median vol (typical_vol_window cfg) of
                Inl e \<Rightarrow> Inl e
              | Inr typical_vol \<Rightarrow>
                  (case simple_slope close (lookback_trend cfg) of
                     Inl e \<Rightarrow> Inl e
                   | Inr slope \<Rightarrow>
                       (let thr = threshold_series close cfg slope;
                            labels = replicate (length close) ''UNCERTAIN''
                        in if int (length close) < min_bars_needed cfg then Inr labels
                           else Inr (label_masks labels vol typical_vol slope thr
                                  (vol_mult_high cfg))))))"

text \<open>
  The intermediate series of a call, as functions of its arguments: the local variables
  \<^verbatim>\<open>vol\<close>, \<^verbatim>\<open>typical_vol\<close>, \<^verbatim>\<open>slope\<close>, \<^verbatim>\<open>slope_threshold\<close> and the three masks of
  \<^verbatim>\<open>classify_regimes\<close>, for a configuration with which the call gets as far as the gate.
\<close>

definition vol_of :: "real list \<Rightarrow> RegimeConfig \<Rightarrow> series" where
  "vol_of close cfg = rolling_std (nat (lookback_vol cfg)) (simple_returns close)"

definition typical_vol_of :: "real list \<Rightarrow> RegimeConfig \<Rightarrow> series" where
  "typical_vol_of close cfg = rolling_median_nat (nat (typical_vol_window cfg)) (vol_of close cfg)"

definition slope_of :: "real list \<Rightarrow> RegimeConfig \<Rightarrow> series" where
  "slope_of close cfg =
     slope_values close (shifted (lookback_trend cfg) close) (real_of_int (lookback_trend cfg))"

definition thr_of :: "real list \<Rightarrow> RegimeConfig \<Rightarrow> series" where
  "thr_of close cfg = threshold_series close cfg (slope_of close cfg)"

definition is_volatile :: "real list \<Rightarrow> RegimeConfig \<Rightarrow> nat \<Rightarrow> bool" where
  "is_volatile close cfg t =
     (volatile_mask (vol_of close cfg) (typical_vol_of close cfg) (vol_mult_high cfg) ! t)"

definition is_trend :: "real list \<Rightarrow> RegimeConfig \<Rightarrow> nat \<Rightarrow> bool" where
  "is_trend close cfg t =
     (trend_mask (volatile_mask (vol_of close cfg) (typical_vol_of close cfg) (vol_mult_high cfg))
        (slope_of close cfg) (thr_of close cfg) ! t)"

definition is_range :: "real list \<Rightarrow> RegimeConfig \<Rightarrow> nat \<Rightarrow> bool" where
  "is_range close cfg t =
     (range_mask (volatile_mask (vol_of close cfg) (typical_vol_of close cfg) (vol_mult_high cfg))
        (slope_of close cfg) (thr_of close cfg) ! t)"

text \<open>
  A configuration whose windows the library can work with: the two rolling windows are not
  negative, and all three window sizes fit in a signed 64-bit integer. A valid configuration
  is one of those that also meets the constraints of the data model: positive windows, a
  positive \<^verbatim>\<open>vol_mult_high\<close> and a non-negative \<^verbatim>\<open>slope_threshold\<close>.
\<close>

definition windows_in_range :: "RegimeConfig \<Rightarrow> bool" where
  "windows_in_range cfg \<longleftrightarrow>
     0 \<le> lookback_vol cfg \<and> int64_range (lookback_vol cfg) \<and>
     0 \<le> typical_vol_window cfg \<and> int64_range (typical_vol_window cfg) \<and>
     int64_range (lookback_trend cfg)"

definition valid_config :: "RegimeConfig \<Rightarrow> bool" where
  "valid_config cfg \<longleftrightarrow>
     0 < lookback_vol cfg \<and> 0 < lookback_trend cfg \<and> 0 < typical_vol_window cfg \<and>
     0 < vol_mult_high cfg \<and> 0 \<le> slope_threshold cfg \<and>
     int64_range (lookback_vol cfg) \<and> int64_range (lookback_trend cfg) \<and>
     int64_range (typical_vol_window cfg)"

definition regime_labels :: "string set" where
  "regime_labels = {''TREND'', ''RANGE'', ''VOLATILE'', ''UNCERTAIN''}"

subsection \<open>The decision gate\<close>

text \<open>
  The file \<^verbatim>\<open>src/decision_gate.py\<close> as it is shipped. Its first line is the word \<^verbatim>\<open>You\<close>
  between two zero-width spaces (U+200B, the bytes \<^verbatim>\<open>e2 80 8b\<close> in UTF-8), outside any string
  or comment. Python rejects that character when it reads the file, so loading the module
  ends in a SyntaxError and the function of lines 2-34 is never defined. The model keeps
  both: \<open>decision_gate_body\<close> is the if/elif chain of lines 2-34, and \<open>decision_gate\<close> is
  what a caller of the shipped module gets.
\<close>

record decision =
  allow_trade :: bool
  position_size :: real
  note' :: string

definition zero_width_space :: string where
  "zero_width_space = [CHR 0xE2, CHR 0x80, CHR 0x8B]"

definition module_line1 :: string where
  "module_line1 = zero_width_space @ ''You'' @ zero_width_space"

fun has_zero_width_space :: "string \<Rightarrow> bool" where
  "has_zero_width_space [] = False"
| "has_zero_width_space (c # cs) =
     (take 3 (c # cs) = zero_width_space \<or> has_zero_width_space cs)"

definition load_module :: "string \<Rightarrow> 'a \<Rightarrow> error + 'a" where
  "load_module line1 defs = (if has_zero_width_space line1 then Inl SyntaxError else Inr defs)"

definition decision_gate_body :: "string \<Rightarrow> decision" where
  "decision_gate_body regime =
     (if regime = ''TREND'' then
        \<lparr>allow_trade = True, position_size = 1, note' = ''Trend regime: full risk allowed''\<rparr>
      else if regime = ''RANGE'' then
        \<lparr>allow_trade = True, position_size = 1 / 2, note' = ''Range regime: reduced size''\<rparr>
      else if regime = ''VOLATILE'' then
        \<lparr>allow_trade = False, position_size = 0, note' = ''Volatile regime: trading disabled''\<rparr>
      else
        \<lparr>allow_trade = False, position_size = 0, note' = ''Uncertain regime: no trade''\<rparr>)"

definition decision_gate :: "string \<Rightarrow> error + decision" where
  "decision_gate regime =
     (case load_module module_line1 decision_gate_body of
        Inl e \<Rightarrow> Inl e
      | Inr f \<Rightarrow> Inr (f regime))"

section \<open>Basic facts about the series operations\<close>

lemma length_simple_returns [simp]: "length (simple_returns close) = length close"
  by (simp add: simple_returns_def)
lemma length_rolling_std [simp]: "length (rolling_std w xs) = length xs"
  by (simp add: rolling_std_def)
lemma length_rolling_median_nat [simp]: "length (rolling_median_nat w xs) = length xs"
  by (simp add: rolling_median_nat_def)
lemma length_shifted [simp]: "length (shifted k close) = length close"
  by (simp add: shifted_def)
lemma length_slope_values [simp]:
  "length (slope_values close sh d) = min (length close) (length sh)"
  by (simp add: slope_values_def)
lemma length_abs_series [simp]: "length (abs_series xs) = length xs"
  by (simp add: abs_series_def)
lemma length_scale_series [simp]: "length (scale_series xs m) = length xs"
  by (simp add: scale_series_def)
lemma length_threshold_series [simp]:
  "length slope = length close \<Longrightarrow> length (threshold_series close cfg slope) = length close"
  by (simp add: threshold_series_def)
lemma length_vol_of [simp]: "length (vol_of close cfg) = length close"
  by (simp add: vol_of_def)
lemma length_typical_vol_of [simp]: "length (typical_vol_of close cfg) = length close"
  by (simp add: typical_vol_of_def)
lemma length_slope_of [simp]: "length (slope_of close cfg) = length close"
  by (simp add: slope_of_def)
lemma length_thr_of [simp]: "length (thr_of close cfg) = length close"
  by (simp add: thr_of_def)

lemma length_volatile_mask [simp]:
  "length (volatile_mask vol typ m) = min (length vol) (length typ)"
  by (simp add: volatile_mask_def gt_series_def)
lemma length_trend_mask [simp]:
  "length (trend_mask vm slope thr) = min (length vm) (min (length slope) (length thr))"
  by (simp add: trend_mask_def and_mask_def not_mask_def gt_series_def)
lemma length_range_mask [simp]:
  "length (range_mask vm slope thr) = min (length vm) (min (length slope) (length thr))"
  by (simp add: range_mask_def and_mask_def not_mask_def le_series_def)
lemma length_assign_mask [simp]:
  "length (assign_mask labels msk v) = min (length labels) (length msk)"
  by (simp add: assign_mask_def)

lemma length_label_masks:
  "length vol = n \<Longrightarrow> length typ = n \<Longrightarrow> length slope = n \<Longrightarrow> length thr = n \<Longrightarrow>
   length labels = n \<Longrightarrow> length (label_masks labels vol typ slope thr m) = n"
  by (simp add: label_masks_def Let_def)

lemma volatile_mask_nth:
  "t < length vol \<Longrightarrow> t < length typ \<Longrightarrow>
   volatile_mask vol typ m ! t = gt_opt (vol ! t) (map_option (\<lambda>x. x * m) (typ ! t))"
  by (simp add: volatile_mask_def gt_series_def scale_series_def)

lemma trend_mask_nth:
  "t < length vm \<Longrightarrow> t < length slope \<Longrightarrow> t < length thr \<Longrightarrow>
   trend_mask vm slope thr ! t = (\<not> vm ! t \<and> gt_opt (map_option abs (slope ! t)) (thr ! t))"
  by (simp add: trend_mask_def and_mask_def not_mask_def gt_series_def abs_series_def)

lemma range_mask_nth:
  "t < length vm \<Longrightarrow> t < length slope \<Longrightarrow> t < length thr \<Longrightarrow>
   range_mask vm slope thr ! t = (\<not> vm ! t \<and> le_opt (map_option abs (slope ! t)) (thr ! t))"
  by (simp add: range_mask_def and_mask_def not_mask_def le_series_def abs_series_def)

lemma assign_mask_nth:
  "t < length labels \<Longrightarrow> t < length msk \<Longrightarrow>
   assign_mask labels msk v ! t = (if msk ! t then v else labels ! t)"
  by (simp add: assign_mask_def)

lemma label_masks_nth:
  assumes "length vol = n" "length typ = n" "length slope = n" "length thr = n"
    "length labels = n" "t < n"
  shows "label_masks labels vol typ slope thr m ! t =
    (let vm = volatile_mask vol typ m in
     if range_mask vm slope thr ! t then ''RANGE''
     else if trend_mask vm slope thr ! t then ''TREND''
     else if vm ! t then ''VOLATILE'' else labels ! t)"
  using assms by (simp add: label_masks_def Let_def assign_mask_nth)

lemma int64_below_float_limit: "int64_range k \<Longrightarrow> \<not> float_limit \<le> \<bar>k\<bar>"
proof -
  have "(2 :: int) ^ 63 < 2 ^ 970" by (rule power_strict_increasing) simp_all
  moreover have "(2 :: int) ^ 1024 = 2 ^ 970 * 2 ^ 54" by (simp add: power_add [symmetric])
  moreover have "(2 :: int) ^ 970 * 2 \<le> 2 ^ 970 * 2 ^ 54" by (rule mult_left_mono) simp_all
  ultimately have "(2 :: int) ^ 63 < float_limit" by (simp add: float_limit_def)
  then show "int64_range k \<Longrightarrow> \<not> float_limit \<le> \<bar>k\<bar>"
    by (auto simp: int64_range_def)
qed

lemma simple_slope_in_range:
  "int64_range k \<Longrightarrow>
   simple_slope close k = Inr (slope_values close (shifted k close) (real_of_int k))"
  by (simp add: simple_slope_def shift_series_def float_of_int_def int64_below_float_limit)

lemma simple_returns_Nil_iff [simp]: "simple_returns close = [] \<longleftrightarrow> close = []"
  by (simp add: simple_returns_def)

lemma rolling_std_Nil_iff [simp]: "rolling_std w xs = [] \<longleftrightarrow> xs = []"
  by (simp add: rolling_std_def)

lemma label_masks_Nil [simp]: "label_masks [] vol typ slope thr m = []"
  by (simp add: label_masks_def assign_mask_def)

lemma classify_regimes_unfold:
  "classify_regimes close cfg_opt =
    (let cfg = config_or_default cfg_opt
     in if lookback_vol cfg < 0 then Inl ValueError
        else if close \<noteq> [] \<and> \<not> int64_range (lookback_vol cfg) then Inl OverflowError
        else if typical_vol_window cfg < 0 then Inl ValueError
        else if close \<noteq> [] \<and> \<not> int64_range (typical_vol_window cfg) then Inl OverflowError
        else if lookback_trend cfg \<noteq> 0 \<and> close \<noteq> [] \<and> \<not> int64_range (lookback_trend cfg)
          then Inl OverflowError
        else if float_limit \<le> \<bar>lookback_trend cfg\<bar> then Inl OverflowError
        else if int (length close) < min_bars_needed cfg
          then Inr (replicate (length close) ''UNCERTAIN'')
        else Inr (label_masks (replicate (length close) ''UNCERTAIN'') (vol_of close cfg)
               (typical_vol_of close cfg) (slope_of close cfg) (thr_of close cfg)
               (vol_mult_high cfg)))"
proof (cases "close = []")
  case True
  then show ?thesis
    by (simp add: classify_regimes_def rolling_volatility_def rolling_median_def
        rolling_window_def simple_slope_def shift_series_def float_of_int_def Let_def
        vol_of_def typical_vol_of_def slope_of_def thr_of_def)
next
  case False
  then show ?thesis
    by (simp add: classify_regimes_def rolling_volatility_def rolling_median_def
        rolling_window_def simple_slope_def shift_series_def float_of_int_def Let_def
        vol_of_def typical_vol_of_def slope_of_def thr_of_def)
qed

lemma classify_regimes_in_range:
  assumes "windows_in_range (config_or_default cfg_opt)"
  shows "classify_regimes close cfg_opt =
    (let cfg = config_or_default cfg_opt
     in if int (length close) < min_bars_needed cfg
          then Inr (replicate (length close) ''UNCERTAIN'')
        else Inr (label_masks (replicate (length close) ''UNCERTAIN'') (vol_of close cfg)
               (typical_vol_of close cfg) (slope_of close cfg) (thr_of close cfg)
               (vol_mult_high cfg)))"
  using assms
  by (simp add: classify_regimes_unfold Let_def windows_in_range_def int64_below_float_limit)

lemma valid_config_in_range: "valid_config cfg \<Longrightarrow> windows_in_range cfg"
  by (simp add: valid_config_def windows_in_range_def)

lemma config_or_default_Some [simp]: "config_or_default (Some cfg) = cfg"
  by (simp add: config_or_default_def)

lemma config_or_default_None [simp]: "config_or_default None = default_config"
  by (simp add: config_or_default_def)



lemma is_volatile_iff:
  "t < length close \<Longrightarrow>
   is_volatile close cfg t =
     gt_opt (vol_of close cfg ! t)
       (map_option (\<lambda>x. x * vol_mult_high cfg) (typical_vol_of close cfg ! t))"
  by (simp add: is_volatile_def volatile_mask_nth)

lemma is_trend_iff:
  "t < length close \<Longrightarrow>
   is_trend close cfg t =
     (\<not> is_volatile close cfg t \<and>
      gt_opt (map_option abs (slope_of close cfg ! t)) (thr_of close cfg ! t))"
  by (simp add: is_trend_def is_volatile_def trend_mask_nth)

lemma is_range_iff:
  "t < length close \<Longrightarrow>
   is_range close cfg t =
     (\<not> is_volatile close cfg t \<and>
      le_opt (map_option abs (slope_of close cfg ! t)) (thr_of close cfg ! t))"
  by (simp add: is_range_def is_volatile_def range_mask_nth)

lemma gt_le_opt_exclusive: "\<not> (gt_opt a b \<and> le_opt a b)"
  by (auto simp: gt_opt_def le_opt_def split: option.splits)

lemma classify_label_nth:
  assumes "classify_regimes close (Some cfg) = Inr labels"
    and "min_bars_needed cfg \<le> int (length close)" and "t < length close"
  shows "labels ! t =
    (if is_range close cfg t then ''RANGE''
     else if is_trend close cfg t then ''TREND''
     else if is_volatile close cfg t then ''VOLATILE'' else ''UNCERTAIN'')"
proof -
  from assms(1,2) have
    "labels = label_masks (replicate (length close) ''UNCERTAIN'') (vol_of close cfg)
       (typical_vol_of close cfg) (slope_of close cfg) (thr_of close cfg) (vol_mult_high cfg)"
    by (simp add: classify_regimes_unfold Let_def split: if_splits)
  then show ?thesis
    using assms(3)
    by (simp add: label_masks_nth [where n = "length close"] Let_def
        is_range_def is_trend_def is_volatile_def)
qed

lemma in_range_returns:
  assumes "windows_in_range (config_or_default cfg_opt)"
  obtains labels where "classify_regimes close cfg_opt = Inr labels"
    and "length labels = length close"
proof (cases "int (length close) < min_bars_needed (config_or_default cfg_opt)")
  case True
  with assms have "classify_regimes close cfg_opt = Inr (replicate (length close) ''UNCERTAIN'')"
    by (simp add: classify_regimes_in_range Let_def)
  then show ?thesis by (rule that) simp
next
  case False
  let ?cfg = "config_or_default cfg_opt"
  let ?ls = "label_masks (replicate (length close) ''UNCERTAIN'') (vol_of close ?cfg)
        (typical_vol_of close ?cfg) (slope_of close ?cfg) (thr_of close ?cfg) (vol_mult_high ?cfg)"
  from False assms have "classify_regimes close cfg_opt = Inr ?ls"
    by (simp add: classify_regimes_in_range Let_def)
  moreover have "length ?ls = length close" by (rule length_label_masks) simp_all
  ultimately show ?thesis by (rule that)
qed

lemma valid_config_returns:
  assumes "valid_config cfg"
  obtains labels where "classify_regimes close (Some cfg) = Inr labels"
proof -
  from assms have "windows_in_range (config_or_default (Some cfg))"
    by (simp add: valid_config_in_range)
  then obtain labels where "classify_regimes close (Some cfg) = Inr labels"
    by (rule in_range_returns)
  then show ?thesis by (rule that)
qed

lemmas eval_defs = classify_regimes_in_range windows_in_range_def int64_range_def
     Let_def min_bars_needed_def label_masks_def
     vol_of_def typical_vol_of_def slope_of_def thr_of_def simple_returns_def rolling_std_def
     rolling_median_nat_def window_at_def slope_values_def shifted_def threshold_series_def
     volatile_mask_def trend_mask_def range_mask_def assign_mask_def gt_series_def le_series_def
     and_mask_def not_mask_def abs_series_def scale_series_def gt_opt_def le_opt_def pct_def
     is_volatile_def is_trend_def is_range_def valid_config_def sample_std_def mean_def median_def

subsection \<open>Windows over series of zeros and constant prices\<close>

lemma those_eq: "those xs = (if None \<in> set xs then None else Some (map the xs))"
  by (induction xs) (auto split: option.splits)

lemma take_drop_map_nth:
  "d + w \<le> length xs \<Longrightarrow> take w (drop d xs) = map (\<lambda>i. xs ! (d + i)) [0..<w]"
  by (auto intro!: nth_equalityI)

lemma window_at_eq:
  assumes "t < length xs"
  shows "window_at w xs t =
    (if w = 0 \<or> t + 1 < w then None
     else if \<exists>i<w. xs ! (t + 1 - w + i) = None then None
     else Some (map (\<lambda>i. the (xs ! (t + 1 - w + i))) [0..<w]))"
proof (cases "w = 0 \<or> t + 1 < w")
  case True
  then show ?thesis by (simp add: window_at_def)
next
  case False
  with assms have "t + 1 - w + w \<le> length xs" by simp
  then have td: "take w (drop (t + 1 - w) xs) = map (\<lambda>i. xs ! (t + 1 - w + i)) [0..<w]"
    by (rule take_drop_map_nth)
  have "None \<in> set (map (\<lambda>i. xs ! (t + 1 - w + i)) [0..<w]) \<longleftrightarrow>
        (\<exists>i<w. xs ! (t + 1 - w + i) = None)"
    by (force simp: image_iff)
  with False td show ?thesis
    by (simp add: window_at_def those_eq comp_def del: set_map)
qed

lemma sample_std_zeros:
  assumes "\<forall>y\<in>set ys. y = 0"
  shows "sample_std ys = 0"
proof -
  from assms have ys: "ys = replicate (length ys) 0"
    by (simp add: replicate_length_same)
  have "sum_list ys = 0" by (subst ys) (simp add: sum_list_replicate)
  then have m: "mean ys = 0" by (simp add: mean_def)
  have "map (\<lambda>y. (y - mean ys)\<^sup>2) ys = replicate (length ys) 0"
    by (subst (2) ys) (simp add: m map_replicate del: replicate_eq_replicate)
  then have "sum_list (map (\<lambda>y. (y - mean ys)\<^sup>2) ys) = 0"
    by (simp add: sum_list_replicate)
  then show ?thesis by (simp add: sample_std_def)
qed

lemma median_zeros:
  assumes "\<forall>y\<in>set ys. y = 0" and "ys \<noteq> []"
  shows "median ys = 0"
proof -
  let ?s = "sort ys"
  have z: "?s ! i = 0" if "i < length ys" for i
  proof -
    from that have "i < length ?s" by simp
    then have "?s ! i \<in> set ?s" by (rule nth_mem)
    then have "?s ! i \<in> set ys" by simp
    with assms(1) show ?thesis by blast
  qed
  from assms(2) have pos: "0 < length ys" by simp
  show ?thesis
  proof (cases "odd (length ys)")
    case True
    with pos z [of "length ys div 2"] show ?thesis by (simp add: median_def Let_def)
  next
    case False
    from pos have h: "length ys div 2 < length ys" by simp
    then have "length ys div 2 - 1 < length ys" by (rule less_imp_diff_less)
    with False h z show ?thesis by (simp add: median_def Let_def)
  qed
qed

lemma rolling_std_zeros:
  assumes "\<forall>x\<in>set xs. x = None \<or> x = Some 0" and "t < length xs"
  shows "rolling_std w xs ! t = None \<or> rolling_std w xs ! t = Some 0"
proof (cases "window_at w xs t")
  case None
  with assms(2) show ?thesis by (simp add: rolling_std_def)
next
  case (Some ys)
  have "y = 0" if "y \<in> set ys" for y
  proof -
    from Some assms(2) have nn: "\<not> (\<exists>i<w. xs ! (t + 1 - w + i) = None)"
      and ys: "ys = map (\<lambda>i. the (xs ! (t + 1 - w + i))) [0..<w]"
      and w: "\<not> (w = 0 \<or> t + 1 < w)"
      by (auto simp: window_at_eq split: if_splits)
    from that ys obtain i where i: "i < w" and y: "y = the (xs ! (t + 1 - w + i))" by auto
    from i w assms(2) have "t + 1 - w + i < length xs" by simp
    then have "xs ! (t + 1 - w + i) \<in> set xs" by (rule nth_mem)
    with assms(1) nn i have "xs ! (t + 1 - w + i) = Some 0" by blast
    with y show ?thesis by simp
  qed
  then have "sample_std ys = 0" by (simp add: sample_std_zeros)
  with Some assms(2) show ?thesis by (simp add: rolling_std_def)
qed

lemma rolling_median_zeros:
  assumes "\<forall>x\<in>set xs. x = None \<or> x = Some 0" and "t < length xs"
  shows "rolling_median_nat w xs ! t = None \<or> rolling_median_nat w xs ! t = Some 0"
proof (cases "window_at w xs t")
  case None
  with assms(2) show ?thesis by (simp add: rolling_median_nat_def)
next
  case (Some ys)
  from Some assms(2) have nn: "\<not> (\<exists>i<w. xs ! (t + 1 - w + i) = None)"
    and ys: "ys = map (\<lambda>i. the (xs ! (t + 1 - w + i))) [0..<w]"
    and w: "\<not> (w = 0 \<or> t + 1 < w)"
    by (auto simp: window_at_eq split: if_splits)
  have "y = 0" if "y \<in> set ys" for y
  proof -
    from that ys obtain i where i: "i < w" and y: "y = the (xs ! (t + 1 - w + i))" by auto
    from i w assms(2) have "t + 1 - w + i < length xs" by simp
    then have "xs ! (t + 1 - w + i) \<in> set xs" by (rule nth_mem)
    with assms(1) nn i have "xs ! (t + 1 - w + i) = Some 0" by blast
    with y show ?thesis by simp
  qed
  moreover from ys w have "ys \<noteq> []" by simp
  ultimately have "median ys = 0" by (simp add: median_zeros)
  with Some assms(2) show ?thesis by (simp add: rolling_median_nat_def)
qed

lemma simple_returns_constant:
  assumes "c \<noteq> 0" and "t < n"
  shows "simple_returns (replicate n c) ! t = (if t = 0 then None else Some 0)"
  using assms by (simp add: simple_returns_def pct_def)

lemma returns_constant_zeros:
  assumes "c \<noteq> 0"
  shows "\<forall>x\<in>set (simple_returns (replicate n c)). x = None \<or> x = Some 0"
proof
  fix x assume "x \<in> set (simple_returns (replicate n c))"
  then obtain i where "i < n" and "x = simple_returns (replicate n c) ! i"
    by (auto simp: in_set_conv_nth)
  with assms show "x = None \<or> x = Some 0" by (simp add: simple_returns_constant)
qed

lemma vol_constant_zeros:
  assumes "c \<noteq> 0"
  shows "\<forall>x\<in>set (vol_of (replicate n c) cfg). x = None \<or> x = Some 0"
proof
  fix x assume "x \<in> set (vol_of (replicate n c) cfg)"
  then obtain i where "i < n" and "x = vol_of (replicate n c) cfg ! i"
    by (auto simp: in_set_conv_nth)
  with rolling_std_zeros [OF returns_constant_zeros [OF assms], of i n "nat (lookback_vol cfg)"]
  show "x = None \<or> x = Some 0" by (simp add: vol_of_def)
qed

lemma constant_not_volatile:
  assumes "c \<noteq> 0" and "t < n"
  shows "\<not> is_volatile (replicate n c) cfg t"
proof -
  let ?close = "replicate n c"
  note v = vol_constant_zeros [OF assms(1), of n cfg]
  from assms(2) have "vol_of ?close cfg ! t \<in> set (vol_of ?close cfg)" by simp
  with v have 1: "vol_of ?close cfg ! t = None \<or> vol_of ?close cfg ! t = Some 0" by blast
  from rolling_median_zeros [OF v, of t "nat (typical_vol_window cfg)"] assms(2)
  have 2: "typical_vol_of ?close cfg ! t = None \<or> typical_vol_of ?close cfg ! t = Some 0"
    by (simp add: typical_vol_of_def)
  from 1 2 assms(2) show ?thesis
    by (auto simp: is_volatile_iff gt_opt_def)
qed

lemma vol_constant:
  assumes "c \<noteq> 0" and "0 < lookback_vol cfg" and "t < n" and "lookback_vol cfg \<le> int t"
  shows "vol_of (replicate n c) cfg ! t = (if 2 \<le> lookback_vol cfg then Some 0 else None)"
proof -
  let ?xs = "simple_returns (replicate n c)"
  let ?w = "nat (lookback_vol cfg)"
  from assms(3) have tl: "t < length ?xs" by simp
  from assms(2,4) have c1: "\<not> (?w = 0 \<or> t + 1 < ?w)" by simp
  have c2: "\<not> (\<exists>i<?w. ?xs ! (t + 1 - ?w + i) = None)"
  proof
    assume "\<exists>i<?w. ?xs ! (t + 1 - ?w + i) = None"
    then obtain i where i: "i < ?w" and n: "?xs ! (t + 1 - ?w + i) = None" by blast
    from i assms(2,3,4) have idx: "t + 1 - ?w + i < n" and ne: "t + 1 - ?w + i \<noteq> 0"
      by arith+
    from simple_returns_constant [OF assms(1) idx] ne
    have "?xs ! (t + 1 - ?w + i) = Some 0" by (simp only: if_False)
    with n show False by simp
  qed
  have w: "window_at ?w ?xs t = Some (map (\<lambda>i. the (?xs ! (t + 1 - ?w + i))) [0..<?w])"
    unfolding window_at_eq [OF tl] using c1 c2 by (simp only: if_False)
  have nth: "vol_of (replicate n c) cfg ! t =
      (if ?w < 2 then None
       else Some (sample_std (map (\<lambda>i. the (?xs ! (t + 1 - ?w + i))) [0..<?w])))"
    using assms(3) by (simp add: vol_of_def rolling_std_def w)
  show ?thesis
  proof (cases "2 \<le> lookback_vol cfg")
    case True
    then have "\<not> ?w < 2" by simp
    with nth have "vol_of (replicate n c) cfg ! t \<noteq> None" by simp
    moreover from assms(3) have "vol_of (replicate n c) cfg ! t \<in> set (vol_of (replicate n c) cfg)"
      by simp
    with vol_constant_zeros [OF assms(1), of n cfg]
    have "vol_of (replicate n c) cfg ! t = None \<or> vol_of (replicate n c) cfg ! t = Some 0"
      by blast
    ultimately show ?thesis using True by auto
  next
    case False
    then have "?w < 2" by simp
    with nth False show ?thesis by simp
  qed
qed

lemma typical_vol_constant:
  assumes "c \<noteq> 0" and "0 < lookback_vol cfg" and "0 < typical_vol_window cfg" and "t < n"
    and "typical_vol_window cfg + lookback_vol cfg \<le> int t"
  shows "typical_vol_of (replicate n c) cfg ! t =
           (if 2 \<le> lookback_vol cfg then Some 0 else None)"
proof -
  let ?vs = "vol_of (replicate n c) cfg"
  let ?w = "nat (typical_vol_window cfg)"
  from assms(4) have tl: "t < length ?vs" by simp
  from assms(2,3,5) have c1: "\<not> (?w = 0 \<or> t + 1 < ?w)" by simp
  have vs: "?vs ! (t + 1 - ?w + i) = (if 2 \<le> lookback_vol cfg then Some 0 else None)"
    if "i < ?w" for i
  proof -
    from that assms(2,3,4,5) have "t + 1 - ?w + i < n" and "lookback_vol cfg \<le> int (t + 1 - ?w + i)"
      by arith+
    with assms(1,2) show ?thesis by (rule vol_constant)
  qed
  have nth: "typical_vol_of (replicate n c) cfg ! t = map_option median (window_at ?w ?vs t)"
    using assms(4) by (simp add: typical_vol_of_def rolling_median_nat_def)
  show ?thesis
  proof (cases "2 \<le> lookback_vol cfg")
    case True
    with vs have c2: "\<not> (\<exists>i<?w. ?vs ! (t + 1 - ?w + i) = None)" by simp
    have "window_at ?w ?vs t = Some (map (\<lambda>i. the (?vs ! (t + 1 - ?w + i))) [0..<?w])"
      unfolding window_at_eq [OF tl] using c1 c2 by (simp only: if_False)
    with nth have "typical_vol_of (replicate n c) cfg ! t \<noteq> None" by simp
    moreover from rolling_median_zeros [OF vol_constant_zeros [OF assms(1)] tl, of ?w]
    have "typical_vol_of (replicate n c) cfg ! t = None \<or>
          typical_vol_of (replicate n c) cfg ! t = Some 0"
      by (simp add: typical_vol_of_def)
    ultimately show ?thesis using True by auto
  next
    case False
    from assms(3) have "0 < ?w" by simp
    with vs [of 0] False have "?vs ! (t + 1 - ?w + 0) = None" by simp
    then have ex: "\<exists>i<?w. ?vs ! (t + 1 - ?w + i) = None" using \<open>0 < ?w\<close> by blast
    have "window_at ?w ?vs t = None"
      unfolding window_at_eq [OF tl] using c1 ex by (simp only: if_False if_True)
    with nth False show ?thesis by simp
  qed
qed

lemma slope_constant:
  assumes "0 < lookback_trend cfg" and "t < n"
  shows "slope_of (replicate n c) cfg ! t = (if lookback_trend cfg \<le> int t then Some 0 else None)"
  using assms by (simp add: slope_of_def slope_values_def shifted_def Let_def)

lemma thr_constant_fixed:
  assumes "0 < slope_threshold cfg" and "t < n"
  shows "thr_of (replicate n c) cfg ! t = Some (slope_threshold cfg)"
  using assms by (simp add: thr_of_def threshold_series_def)

lemma thr_constant_auto:
  assumes "slope_threshold cfg \<le> 0" and "0 < lookback_trend cfg" and "t < n"
  shows "thr_of (replicate n c) cfg ! t =
           (if lookback_trend cfg + 199 \<le> int t then Some 0 else None)"
proof -
  let ?xs = "abs_series (slope_of (replicate n c) cfg)"
  have len: "length ?xs = n" by simp
  have xs: "?xs ! i = (if lookback_trend cfg \<le> int i then Some 0 else None)" if "i < n" for i
    using that assms(2) by (simp add: abs_series_def slope_constant)
  have zeros: "\<forall>x\<in>set ?xs. x = None \<or> x = Some 0"
  proof
    fix x assume "x \<in> set ?xs"
    then obtain i where "i < n" and "x = ?xs ! i"
      unfolding in_set_conv_nth len by blast
    with xs show "x = None \<or> x = Some 0" by simp
  qed
  from assms(1) have thr: "thr_of (replicate n c) cfg = rolling_median_nat 200 ?xs"
    by (simp add: thr_of_def threshold_series_def)
  have nth: "rolling_median_nat 200 ?xs ! t = map_option median (window_at 200 ?xs t)"
    using assms(3) by (simp add: rolling_median_nat_def)
  from assms(3) have tl: "t < length ?xs" by simp
  show ?thesis
  proof (cases "lookback_trend cfg + 199 \<le> int t")
    case True
    have c2: "\<not> (\<exists>i<200. ?xs ! (t + 1 - 200 + i) = None)"
    proof
      assume "\<exists>i<200. ?xs ! (t + 1 - 200 + i) = None"
      then obtain i where i: "i < 200" and n: "?xs ! (t + 1 - 200 + i) = None" by blast
      from i True assms(2,3) have idx: "t + 1 - 200 + i < n"
        and ge: "lookback_trend cfg \<le> int (t + 1 - 200 + i)" by arith+
      from xs [OF idx] ge n show False by simp
    qed
    from True assms(2) have c1: "\<not> ((200 :: nat) = 0 \<or> t + 1 < 200)" by arith
    have "window_at 200 ?xs t =
        Some (map (\<lambda>i. the (?xs ! (t + 1 - 200 + i))) [0..<200])"
      unfolding window_at_eq [OF tl] using c1 c2 by (simp only: if_False)
    with nth have "rolling_median_nat 200 ?xs ! t \<noteq> None" by simp
    moreover note rolling_median_zeros [OF zeros tl, of 200]
    ultimately have "rolling_median_nat 200 ?xs ! t = Some 0" by auto
    with True thr show ?thesis by simp
  next
    case False
    have "window_at 200 ?xs t = None"
    proof (cases "t + 1 < 200")
      case True
      then show ?thesis by (simp add: window_at_def)
    next
      case ge: False
      from ge assms(3) have "t + 1 - 200 + 0 < n" by simp
      from xs [OF this] False ge have "?xs ! (t + 1 - 200 + 0) = None" by simp
      then have ex: "\<exists>i<200. ?xs ! (t + 1 - 200 + i) = None" by (intro exI [of _ 0]) simp
      from ge have c1: "\<not> ((200 :: nat) = 0 \<or> t + 1 < 200)" by simp
      show ?thesis
        unfolding window_at_eq [OF tl] using c1 ex by (simp only: if_False if_True)
    qed
    with nth False thr show ?thesis by simp
  qed
qed

lemma constant_label_post:
  assumes "valid_config cfg" and "c \<noteq> 0" and "min_bars_needed cfg \<le> int n" and "t < n"
    and "min_bars_needed cfg - 1 \<le> int t"
  shows "\<exists>labels. classify_regimes (replicate n c) (Some cfg) = Inr labels \<and>
     labels ! t =
       (if 0 < slope_threshold cfg \<or> lookback_trend cfg + 199 \<le> int t
        then ''RANGE'' else ''UNCERTAIN'')"
proof -
  let ?close = "replicate n c"
  let ?k = "lookback_trend cfg"
  from assms(1) have k: "0 < ?k" by (simp add: valid_config_def)
  from assms(5) have kt: "?k \<le> int t" unfolding min_bars_needed_def by linarith
  from assms(1) obtain labels where l: "classify_regimes ?close (Some cfg) = Inr labels"
    by (rule valid_config_returns)
  from assms(3,4) have g: "min_bars_needed cfg \<le> int (length ?close)" and t: "t < length ?close"
    by simp_all
  note lab = classify_label_nth [OF l g t]
  have nv: "\<not> is_volatile ?close cfg t" using assms(2,4) by (rule constant_not_volatile)
  have sl: "slope_of ?close cfg ! t = Some 0"
    using slope_constant [OF k assms(4), of c] kt by simp
  have thr: "thr_of ?close cfg ! t =
      (if 0 < slope_threshold cfg then Some (slope_threshold cfg)
       else if ?k + 199 \<le> int t then Some 0 else None)"
    using assms(4) k by (simp add: thr_constant_fixed thr_constant_auto)
  have r: "is_range ?close cfg t \<longleftrightarrow> 0 < slope_threshold cfg \<or> ?k + 199 \<le> int t"
    using t nv by (simp add: is_range_iff sl thr le_opt_def)
  have tr: "\<not> is_trend ?close cfg t"
    using t by (simp add: is_trend_iff sl thr gt_opt_def)
  from lab r tr nv have "labels ! t =
      (if 0 < slope_threshold cfg \<or> ?k + 199 \<le> int t then ''RANGE'' else ''UNCERTAIN'')"
    by simp
  with l show ?thesis by blast
qed

section \<open>Properties of the classifier\<close>

subsection \<open>Warm-up gate\<close>

lemma huge_not_int64: "\<not> int64_range (10 ^ 400)"
proof -
  have "(2 :: int) ^ 63 \<le> 10 ^ 63" by (rule power_mono) simp_all
  also have "(10 :: int) ^ 63 \<le> 10 ^ 400" by (rule power_increasing) simp_all
  finally have "\<not> (10 :: int) ^ 400 < 2 ^ 63" by (simp only: not_less)
  then show ?thesis by (simp only: int64_range_def de_Morgan_conj simp_thms)
qed

text \<open>
  Claim C1, as the code has it. The rolling windows and the slope are computed before the
  minimum-data gate is reached, so a window size the library cannot work with fails
  whatever the length of the series. For every configuration whose window sizes fit in a
  signed 64-bit integer (the two rolling windows not negative), and every price series
  shorter than \<^verbatim>\<open>min_bars_needed\<close>, the call returns one \<^verbatim>\<open>UNCERTAIN\<close> label per price and
  nothing else.
\<close>

theorem short_series_all_uncertain:
  assumes "windows_in_range (config_or_default cfg_opt)"
    and "int (length close) < min_bars_needed (config_or_default cfg_opt)"
  shows "classify_regimes close cfg_opt = Inr (replicate (length close) ''UNCERTAIN'')"
  using assms by (simp add: classify_regimes_in_range Let_def)

theorem short_series_all_uncertain_witness:
  "classify_regimes [100, 101, 102] None = Inr [''UNCERTAIN'', ''UNCERTAIN'', ''UNCERTAIN'']"
  using short_series_all_uncertain [of None "[100, 101, 102]"]
  by (simp add: default_config_def min_bars_needed_def windows_in_range_def int64_range_def
      numeral_3_eq_3)

text \<open>
  The claim as stated, for every configuration, fails: with the positive window
  \<^verbatim>\<open>lookback_trend = 10^400\<close> every series is shorter than \<^verbatim>\<open>min_bars_needed\<close>, and the call
  on three prices ends in an OverflowError at the slope (line 56, reached from line 71),
  before the gate of line 88.
\<close>

theorem short_series_huge_window_counterexample:
  "0 < lookback_vol \<lparr>lookback_vol = 20, lookback_trend = 10 ^ 400, typical_vol_window = 100,
       vol_mult_high = 3 / 2, slope_threshold = 0\<rparr> \<and>
   0 < lookback_trend \<lparr>lookback_vol = 20, lookback_trend = 10 ^ 400, typical_vol_window = 100,
       vol_mult_high = 3 / 2, slope_threshold = 0\<rparr> \<and>
   0 < typical_vol_window \<lparr>lookback_vol = 20, lookback_trend = 10 ^ 400,
       typical_vol_window = 100, vol_mult_high = 3 / 2, slope_threshold = 0\<rparr> \<and>
   int (length [100, 101, 102 :: real]) <
     min_bars_needed \<lparr>lookback_vol = 20, lookback_trend = 10 ^ 400, typical_vol_window = 100,
       vol_mult_high = 3 / 2, slope_threshold = 0\<rparr> \<and>
   classify_regimes [100, 101, 102]
     (Some \<lparr>lookback_vol = 20, lookback_trend = 10 ^ 400, typical_vol_window = 100,
       vol_mult_high = 3 / 2, slope_threshold = 0\<rparr>) = Inl OverflowError"
proof -
  define h :: int where "h = 10 ^ 400"
  have p: "0 < h" unfolding h_def by (rule zero_less_power) simp
  have nh: "\<not> int64_range h" unfolding h_def by (rule huge_not_int64)
  from p have g: "int (length [100, 101, 102 :: real]) <
      min_bars_needed \<lparr>lookback_vol = 20, lookback_trend = h, typical_vol_window = 100,
        vol_mult_high = 3 / 2, slope_threshold = 0\<rparr>"
    by (simp add: min_bars_needed_def max_def)
  from p nh have c: "classify_regimes [100, 101, 102]
     (Some \<lparr>lookback_vol = 20, lookback_trend = h, typical_vol_window = 100,
       vol_mult_high = 3 / 2, slope_threshold = 0\<rparr>) = Inl OverflowError"
    by (simp add: classify_regimes_unfold Let_def int64_range_def [of 20]
        int64_range_def [of 100])
  from p g c have "0 < lookback_vol \<lparr>lookback_vol = 20, lookback_trend = h, typical_vol_window = 100,
       vol_mult_high = 3 / 2, slope_threshold = 0\<rparr> \<and>
   0 < lookback_trend \<lparr>lookback_vol = 20, lookback_trend = h, typical_vol_window = 100,
       vol_mult_high = 3 / 2, slope_threshold = 0\<rparr> \<and>
   0 < typical_vol_window \<lparr>lookback_vol = 20, lookback_trend = h,
       typical_vol_window = 100, vol_mult_high = 3 / 2, slope_threshold = 0\<rparr> \<and>
   int (length [100, 101, 102 :: real]) <
     min_bars_needed \<lparr>lookback_vol = 20, lookback_trend = h, typical_vol_window = 100,
       vol_mult_high = 3 / 2, slope_threshold = 0\<rparr> \<and>
   classify_regimes [100, 101, 102]
     (Some \<lparr>lookback_vol = 20, lookback_trend = h, typical_vol_window = 100,
       vol_mult_high = 3 / 2, slope_threshold = 0\<rparr>) = Inl OverflowError"
    by simp
  then show ?thesis unfolding h_def .
qed

subsection \<open>Length and label alphabet\<close>



subsection \<open>Mutual exclusivity of the masks\<close>

text \<open>
  Claim C3. For every configuration and every price series, at every position at most one
  of the three masks holds: the trend and range masks are taken over the complement of the
  volatile mask, and the trend test is strict where the range test is not. Whenever the
  call returns labels, the label of the position is one of the four regime labels, and once
  the gate has passed it is \<^verbatim>\<open>VOLATILE\<close>, \<^verbatim>\<open>TREND\<close> or \<^verbatim>\<open>RANGE\<close> exactly when the mask of that
  name holds, and \<^verbatim>\<open>UNCERTAIN\<close> exactly when none does.
\<close>

theorem masks_mutually_exclusive:
  assumes "t < length close"
  shows "\<not> (is_volatile close cfg t \<and> is_trend close cfg t) \<and>
         \<not> (is_volatile close cfg t \<and> is_range close cfg t) \<and>
         \<not> (is_trend close cfg t \<and> is_range close cfg t) \<and>
         (\<forall>labels. classify_regimes close (Some cfg) = Inr labels \<longrightarrow>
            labels ! t \<in> regime_labels \<and>
            (min_bars_needed cfg \<le> int (length close) \<longrightarrow>
               (labels ! t = ''VOLATILE'' \<longleftrightarrow> is_volatile close cfg t) \<and>
               (labels ! t = ''TREND'' \<longleftrightarrow> is_trend close cfg t) \<and>
               (labels ! t = ''RANGE'' \<longleftrightarrow> is_range close cfg t) \<and>
               (labels ! t = ''UNCERTAIN'' \<longleftrightarrow>
                  \<not> is_volatile close cfg t \<and> \<not> is_trend close cfg t \<and>
                  \<not> is_range close cfg t)))"
proof -
  have vt: "\<not> (is_volatile close cfg t \<and> is_trend close cfg t)"
    using assms by (simp add: is_trend_iff)
  have vr: "\<not> (is_volatile close cfg t \<and> is_range close cfg t)"
    using assms by (simp add: is_range_iff)
  have tr: "\<not> (is_trend close cfg t \<and> is_range close cfg t)"
    using assms gt_le_opt_exclusive by (auto simp: is_trend_iff is_range_iff)
  have lab: "labels ! t \<in> regime_labels"
    if "classify_regimes close (Some cfg) = Inr labels" for labels
  proof (cases "min_bars_needed cfg \<le> int (length close)")
    case True
    from classify_label_nth [OF that True assms] show ?thesis
      by (simp add: regime_labels_def)
  next
    case False
    with that assms show ?thesis
      by (auto simp: classify_regimes_unfold Let_def regime_labels_def split: if_splits)
  qed
  have ex: "(labels ! t = ''VOLATILE'' \<longleftrightarrow> is_volatile close cfg t) \<and>
            (labels ! t = ''TREND'' \<longleftrightarrow> is_trend close cfg t) \<and>
            (labels ! t = ''RANGE'' \<longleftrightarrow> is_range close cfg t) \<and>
            (labels ! t = ''UNCERTAIN'' \<longleftrightarrow>
               \<not> is_volatile close cfg t \<and> \<not> is_trend close cfg t \<and> \<not> is_range close cfg t)"
    if "classify_regimes close (Some cfg) = Inr labels"
      and "min_bars_needed cfg \<le> int (length close)" for labels
    using classify_label_nth [OF that assms] vt vr tr by auto
  from vt vr tr lab ex show ?thesis by blast
qed

theorem masks_mutually_exclusive_witness:
  "\<exists>labels. classify_regimes [1, 1, 1, 1, 2]
      (Some \<lparr>lookback_vol = 2, lookback_trend = 1, typical_vol_window = 2,
         vol_mult_high = 2, slope_threshold = 1\<rparr>) = Inr labels \<and>
     labels ! 4 = ''RANGE'' \<and>
     is_range [1, 1, 1, 1, 2]
       \<lparr>lookback_vol = 2, lookback_trend = 1, typical_vol_window = 2,
        vol_mult_high = 2, slope_threshold = 1\<rparr> 4 \<and>
     \<not> is_trend [1, 1, 1, 1, 2]
       \<lparr>lookback_vol = 2, lookback_trend = 1, typical_vol_window = 2,
        vol_mult_high = 2, slope_threshold = 1\<rparr> 4 \<and>
     \<not> is_volatile [1, 1, 1, 1, 2]
       \<lparr>lookback_vol = 2, lookback_trend = 1, typical_vol_window = 2,
        vol_mult_high = 2, slope_threshold = 1\<rparr> 4"
proof -
  let ?cfg = "\<lparr>lookback_vol = 2, lookback_trend = 1, typical_vol_window = 2,
      vol_mult_high = 2, slope_threshold = 1\<rparr>"
  let ?close = "[1, 1, 1, 1, 2 :: real]"
  have v: "valid_config ?cfg" by (simp add: valid_config_def int64_range_def)
  have g: "min_bars_needed ?cfg \<le> int (length ?close)" by (simp add: min_bars_needed_def)
  have t: "4 < length ?close" by simp
  have r: "is_range ?close ?cfg 4" by (simp add: eval_defs eval_nat_numeral)
  from v obtain labels where l: "classify_regimes ?close (Some ?cfg) = Inr labels"
    by (rule valid_config_returns)
  from masks_mutually_exclusive [OF t, of ?cfg] l g r
  have "labels ! 4 = ''RANGE'' \<and> \<not> is_trend ?close ?cfg 4 \<and> \<not> is_volatile ?close ?cfg 4"
    by auto
  with l r show ?thesis by auto
qed

subsection \<open>Undefined intermediate values\<close>

text \<open>
  Claim C4, as the code has it. The volatile mask reads the volatility and its baseline
  only, and the trend and range masks read the slope and its threshold (over the complement
  of the volatile mask). So, for a valid configuration and a series that passes the gate:
  a position whose slope or slope threshold is undefined is labelled \<^verbatim>\<open>VOLATILE\<close> or
  \<^verbatim>\<open>UNCERTAIN\<close>, never \<^verbatim>\<open>TREND\<close> or \<^verbatim>\<open>RANGE\<close>; a position whose volatility or baseline is
  undefined is never \<^verbatim>\<open>VOLATILE\<close>; and a position where both hold is \<^verbatim>\<open>UNCERTAIN\<close>.
\<close>

theorem undefined_values_block_labels:
  assumes "valid_config cfg" and "min_bars_needed cfg \<le> int (length close)"
    and "t < length close"
  shows "\<exists>labels. classify_regimes close (Some cfg) = Inr labels \<and>
     (slope_of close cfg ! t = None \<or> thr_of close cfg ! t = None \<longrightarrow>
        labels ! t = ''VOLATILE'' \<or> labels ! t = ''UNCERTAIN'') \<and>
     (vol_of close cfg ! t = None \<or> typical_vol_of close cfg ! t = None \<longrightarrow>
        labels ! t \<noteq> ''VOLATILE'') \<and>
     ((slope_of close cfg ! t = None \<or> thr_of close cfg ! t = None) \<and>
      (vol_of close cfg ! t = None \<or> typical_vol_of close cfg ! t = None) \<longrightarrow>
        labels ! t = ''UNCERTAIN'')"
proof -
  from assms(1) obtain labels where l: "classify_regimes close (Some cfg) = Inr labels"
    by (rule valid_config_returns)
  note lab = classify_label_nth [OF l assms(2,3)]
  have 1: "labels ! t = ''VOLATILE'' \<or> labels ! t = ''UNCERTAIN''"
    if "slope_of close cfg ! t = None \<or> thr_of close cfg ! t = None"
  proof -
    from that assms(3) have "\<not> is_range close cfg t" "\<not> is_trend close cfg t"
      by (auto simp: is_range_iff is_trend_iff le_opt_def gt_opt_def split: option.splits)
    with lab show ?thesis by simp
  qed
  have 2: "\<not> is_volatile close cfg t"
    if "vol_of close cfg ! t = None \<or> typical_vol_of close cfg ! t = None"
    using that assms(3) by (auto simp: is_volatile_iff gt_opt_def split: option.splits)
  have 3: "labels ! t \<noteq> ''VOLATILE''"
    if "vol_of close cfg ! t = None \<or> typical_vol_of close cfg ! t = None"
    using 2 [OF that] lab by simp
  have 4: "labels ! t = ''UNCERTAIN''"
    if "slope_of close cfg ! t = None \<or> thr_of close cfg ! t = None"
      and "vol_of close cfg ! t = None \<or> typical_vol_of close cfg ! t = None"
    using 1 [OF that(1)] 3 [OF that(2)] by simp
  show ?thesis
  proof (intro exI conjI impI)
    show "classify_regimes close (Some cfg) = Inr labels" by (rule l)
    show "labels ! t = ''VOLATILE'' \<or> labels ! t = ''UNCERTAIN''"
      if "slope_of close cfg ! t = None \<or> thr_of close cfg ! t = None"
      using that by (rule 1)
    show "labels ! t \<noteq> ''VOLATILE''"
      if "vol_of close cfg ! t = None \<or> typical_vol_of close cfg ! t = None"
      using that by (rule 3)
    show "labels ! t = ''UNCERTAIN''"
      if "(slope_of close cfg ! t = None \<or> thr_of close cfg ! t = None) \<and>
          (vol_of close cfg ! t = None \<or> typical_vol_of close cfg ! t = None)"
      using that 4 by blast
  qed
qed

theorem undefined_values_block_labels_witness:
  "\<exists>labels. classify_regimes [1, 1, 1, 2, 2]
     (Some \<lparr>lookback_vol = 2, lookback_trend = 4, typical_vol_window = 1,
        vol_mult_high = 1 / 2, slope_threshold = 1\<rparr>) = Inr labels \<and>
     (labels ! 3 = ''VOLATILE'' \<or> labels ! 3 = ''UNCERTAIN'')"
proof -
  let ?cfg = "\<lparr>lookback_vol = 2, lookback_trend = 4, typical_vol_window = 1,
      vol_mult_high = 1 / 2, slope_threshold = 1\<rparr>"
  let ?close = "[1, 1, 1, 2, 2 :: real]"
  have v: "valid_config ?cfg" by (simp add: valid_config_def int64_range_def)
  have g: "min_bars_needed ?cfg \<le> int (length ?close)" by (simp add: min_bars_needed_def)
  have t: "3 < length ?close" by simp
  have s: "slope_of ?close ?cfg ! 3 = None" by (simp add: eval_defs eval_nat_numeral)
  from undefined_values_block_labels [OF v g t] s show ?thesis by auto
qed

text \<open>
  The claim as stated fails: with \<^verbatim>\<open>lookback_trend = 4\<close> the slope at position 3 is
  undefined, yet the position is labelled \<^verbatim>\<open>VOLATILE\<close>, since its volatility exceeds half
  of the baseline.
\<close>

theorem undefined_slope_volatile_counterexample:
  "valid_config \<lparr>lookback_vol = 2, lookback_trend = 4, typical_vol_window = 1,
      vol_mult_high = 1 / 2, slope_threshold = 1\<rparr> \<and>
   min_bars_needed \<lparr>lookback_vol = 2, lookback_trend = 4, typical_vol_window = 1,
      vol_mult_high = 1 / 2, slope_threshold = 1\<rparr> \<le> int (length [1, 1, 1, 2, 2 :: real]) \<and>
   slope_of [1, 1, 1, 2, 2]
     \<lparr>lookback_vol = 2, lookback_trend = 4, typical_vol_window = 1,
      vol_mult_high = 1 / 2, slope_threshold = 1\<rparr> ! 3 = None \<and>
   classify_regimes [1, 1, 1, 2, 2]
     (Some \<lparr>lookback_vol = 2, lookback_trend = 4, typical_vol_window = 1,
        vol_mult_high = 1 / 2, slope_threshold = 1\<rparr>) =
     Inr [''UNCERTAIN'', ''UNCERTAIN'', ''UNCERTAIN'', ''VOLATILE'', ''VOLATILE'']"
  by (simp add: eval_defs eval_nat_numeral)

subsection \<open>Boundary cases of the two comparisons\<close>

text \<open>
  Claim C5. For a valid configuration and a series that passes the gate, a position that
  is not volatile and whose absolute slope equals its slope threshold is in the range mask,
  not in the trend mask, and is labelled \<^verbatim>\<open>RANGE\<close>.
\<close>

theorem threshold_tie_is_range:
  assumes "valid_config cfg" and "min_bars_needed cfg \<le> int (length close)"
    and "t < length close" and "\<not> is_volatile close cfg t"
    and "slope_of close cfg ! t = Some s" and "thr_of close cfg ! t = Some h"
    and "\<bar>s\<bar> = h"
  shows "is_range close cfg t \<and> \<not> is_trend close cfg t \<and>
         (\<exists>labels. classify_regimes close (Some cfg) = Inr labels \<and> labels ! t = ''RANGE'')"
proof -
  from assms(3-7) have r: "is_range close cfg t" and nt: "\<not> is_trend close cfg t"
    by (simp_all add: is_range_iff is_trend_iff le_opt_def gt_opt_def)
  from assms(1) obtain labels where l: "classify_regimes close (Some cfg) = Inr labels"
    by (rule valid_config_returns)
  from classify_label_nth [OF l assms(2,3)] r have "labels ! t = ''RANGE''" by simp
  with r nt l show ?thesis by blast
qed

theorem threshold_tie_is_range_witness:
  "slope_of [1, 1, 1, 1, 2]
     \<lparr>lookback_vol = 2, lookback_trend = 1, typical_vol_window = 2,
      vol_mult_high = 2, slope_threshold = 1\<rparr> ! 4 = Some 1 \<and>
   thr_of [1, 1, 1, 1, 2]
     \<lparr>lookback_vol = 2, lookback_trend = 1, typical_vol_window = 2,
      vol_mult_high = 2, slope_threshold = 1\<rparr> ! 4 = Some 1 \<and>
   (\<exists>labels. classify_regimes [1, 1, 1, 1, 2]
      (Some \<lparr>lookback_vol = 2, lookback_trend = 1, typical_vol_window = 2,
         vol_mult_high = 2, slope_threshold = 1\<rparr>) = Inr labels \<and> labels ! 4 = ''RANGE'')"
proof -
  let ?cfg = "\<lparr>lookback_vol = 2, lookback_trend = 1, typical_vol_window = 2,
      vol_mult_high = 2, slope_threshold = 1\<rparr>"
  let ?close = "[1, 1, 1, 1, 2 :: real]"
  have v: "valid_config ?cfg" by (simp add: valid_config_def int64_range_def)
  have g: "min_bars_needed ?cfg \<le> int (length ?close)" by (simp add: min_bars_needed_def)
  have t: "4 < length ?close" by simp
  have nv: "\<not> is_volatile ?close ?cfg 4" by (simp add: eval_defs eval_nat_numeral)
  have s: "slope_of ?close ?cfg ! 4 = Some 1" by (simp add: eval_defs eval_nat_numeral)
  have h: "thr_of ?close ?cfg ! 4 = Some 1" by (simp add: eval_defs eval_nat_numeral)
  have e: "\<bar>1 :: real\<bar> = 1" by simp
  from threshold_tie_is_range [OF v g t nv s h e]
  have "\<exists>labels. classify_regimes ?close (Some ?cfg) = Inr labels \<and> labels ! 4 = ''RANGE''"
    by (rule conjunct2 [THEN conjunct2])
  with s h show ?thesis by simp
qed

text \<open>
  Claim C6. For a valid configuration, a position whose rolling volatility equals the
  baseline times \<^verbatim>\<open>vol_mult_high\<close> is not in the volatile mask and is not labelled
  \<^verbatim>\<open>VOLATILE\<close>: the comparison is strict.
\<close>

theorem volatility_boundary_not_volatile:
  assumes "valid_config cfg" and "t < length close"
    and "vol_of close cfg ! t = Some v" and "typical_vol_of close cfg ! t = Some b"
    and "v = b * vol_mult_high cfg"
  shows "\<not> is_volatile close cfg t \<and>
         (\<exists>labels. classify_regimes close (Some cfg) = Inr labels \<and> labels ! t \<noteq> ''VOLATILE'')"
proof -
  from assms(2-5) have nv: "\<not> is_volatile close cfg t"
    by (simp add: is_volatile_iff gt_opt_def)
  from assms(1) obtain labels where l: "classify_regimes close (Some cfg) = Inr labels"
    by (rule valid_config_returns)
  have "labels ! t \<noteq> ''VOLATILE''"
  proof (cases "min_bars_needed cfg \<le> int (length close)")
    case True
    from classify_label_nth [OF l True assms(2)] nv show ?thesis by simp
  next
    case False
    with l assms(1) have "labels = replicate (length close) ''UNCERTAIN''"
      by (simp add: classify_regimes_in_range valid_config_in_range Let_def)
    with assms(2) show ?thesis by simp
  qed
  with nv l show ?thesis by blast
qed

theorem volatility_boundary_not_volatile_witness:
  "vol_of [1, 1, 1, 1, 2]
     \<lparr>lookback_vol = 2, lookback_trend = 1, typical_vol_window = 2,
      vol_mult_high = 2, slope_threshold = 1\<rparr> ! 4 = Some (sqrt (1 / 2)) \<and>
   typical_vol_of [1, 1, 1, 1, 2]
     \<lparr>lookback_vol = 2, lookback_trend = 1, typical_vol_window = 2,
      vol_mult_high = 2, slope_threshold = 1\<rparr> ! 4 = Some (sqrt (1 / 2) / 2) \<and>
   \<not> is_volatile [1, 1, 1, 1, 2]
     \<lparr>lookback_vol = 2, lookback_trend = 1, typical_vol_window = 2,
      vol_mult_high = 2, slope_threshold = 1\<rparr> 4 \<and>
   (\<exists>labels. classify_regimes [1, 1, 1, 1, 2]
      (Some \<lparr>lookback_vol = 2, lookback_trend = 1, typical_vol_window = 2,
         vol_mult_high = 2, slope_threshold = 1\<rparr>) = Inr labels \<and> labels ! 4 \<noteq> ''VOLATILE'')"
proof -
  let ?cfg = "\<lparr>lookback_vol = 2, lookback_trend = 1, typical_vol_window = 2,
      vol_mult_high = 2, slope_threshold = 1\<rparr>"
  let ?close = "[1, 1, 1, 1, 2 :: real]"
  have v: "valid_config ?cfg" by (simp add: valid_config_def int64_range_def)
  have t: "4 < length ?close" by simp
  have a: "vol_of ?close ?cfg ! 4 = Some (sqrt (1 / 2))"
    by (simp add: eval_defs eval_nat_numeral)
  have b: "typical_vol_of ?close ?cfg ! 4 = Some (sqrt (1 / 2) / 2)"
    by (simp add: eval_defs eval_nat_numeral)
  have e: "sqrt (1 / 2) = sqrt (1 / 2) / 2 * vol_mult_high ?cfg" by simp
  note r = volatility_boundary_not_volatile [OF v t a b e]
  from a b r show ?thesis by simp
qed

subsection \<open>Constant prices\<close>

text \<open>
  Claim C9, as the code has it. For a valid configuration and a constant positive price
  series that passes the gate, at every post-warm-up position (index \<^verbatim>\<open>min_bars - 1\<close> or
  later) the return and the slope are 0, the volatility and its baseline are 0 (undefined
  when \<^verbatim>\<open>lookback_vol = 1\<close>, where a standard deviation has a single observation), and the
  position is not volatile. Its label is \<^verbatim>\<open>RANGE\<close> when its slope threshold is defined:
  always when \<^verbatim>\<open>slope_threshold > 0\<close>, and from index \<^verbatim>\<open>lookback_trend + 199\<close> on in auto
  mode (\<^verbatim>\<open>slope_threshold = 0\<close>), where the threshold is a rolling median over 200 points.
  A post-warm-up position whose threshold is not yet defined is \<^verbatim>\<open>UNCERTAIN\<close>.
\<close>

theorem constant_series_range:
  assumes "valid_config cfg" and "0 < c" and "min_bars_needed cfg \<le> int n" and "t < n"
    and "min_bars_needed cfg - 1 \<le> int t"
  shows "\<exists>labels. classify_regimes (replicate n c) (Some cfg) = Inr labels \<and>
     simple_returns (replicate n c) ! t = Some 0 \<and>
     vol_of (replicate n c) cfg ! t = (if 2 \<le> lookback_vol cfg then Some 0 else None) \<and>
     typical_vol_of (replicate n c) cfg ! t =
       (if 2 \<le> lookback_vol cfg then Some 0 else None) \<and>
     slope_of (replicate n c) cfg ! t = Some 0 \<and>
     \<not> is_volatile (replicate n c) cfg t \<and>
     labels ! t =
       (if 0 < slope_threshold cfg \<or> lookback_trend cfg + 199 \<le> int t
        then ''RANGE'' else ''UNCERTAIN'') \<and>
     (thr_of (replicate n c) cfg ! t \<noteq> None \<longrightarrow> labels ! t = ''RANGE'')"
proof -
  let ?close = "replicate n c"
  let ?k = "lookback_trend cfg"
  from assms(2) have c: "c \<noteq> 0" by simp
  from assms(1) have k: "0 < ?k" and lv: "0 < lookback_vol cfg"
    and tv: "0 < typical_vol_window cfg" by (simp_all add: valid_config_def)
  from assms(5) have kt: "?k \<le> int t"
    and vt: "typical_vol_window cfg + lookback_vol cfg \<le> int t"
    unfolding min_bars_needed_def by linarith+
  from vt tv have lt: "lookback_vol cfg \<le> int t" by simp
  from kt k have t0: "t \<noteq> 0" by auto
  from constant_label_post [OF assms(1) c assms(3,4,5)]
  obtain labels where l: "classify_regimes ?close (Some cfg) = Inr labels"
    and lab: "labels ! t =
      (if 0 < slope_threshold cfg \<or> ?k + 199 \<le> int t then ''RANGE'' else ''UNCERTAIN'')"
    by blast
  have r: "simple_returns ?close ! t = Some 0"
    using simple_returns_constant [OF c assms(4)] t0 by simp
  have v: "vol_of ?close cfg ! t = (if 2 \<le> lookback_vol cfg then Some 0 else None)"
    using c lv assms(4) lt by (rule vol_constant)
  have b: "typical_vol_of ?close cfg ! t = (if 2 \<le> lookback_vol cfg then Some 0 else None)"
    using c lv tv assms(4) vt by (rule typical_vol_constant)
  have sl: "slope_of ?close cfg ! t = Some 0"
    using slope_constant [OF k assms(4), of c] kt by simp
  have nv: "\<not> is_volatile ?close cfg t" using c assms(4) by (rule constant_not_volatile)
  have thr: "thr_of ?close cfg ! t =
      (if 0 < slope_threshold cfg then Some (slope_threshold cfg)
       else if ?k + 199 \<le> int t then Some 0 else None)"
    using assms(4) k by (simp add: thr_constant_fixed thr_constant_auto)
  have post: "labels ! t = ''RANGE''" if "thr_of ?close cfg ! t \<noteq> None"
  proof -
    from that thr have "0 < slope_threshold cfg \<or> ?k + 199 \<le> int t"
      by (simp split: if_splits)
    with lab show ?thesis by simp
  qed
  show ?thesis
  proof (intro exI conjI impI)
    show "classify_regimes ?close (Some cfg) = Inr labels" by (rule l)
    show "simple_returns ?close ! t = Some 0" by (rule r)
    show "vol_of ?close cfg ! t = (if 2 \<le> lookback_vol cfg then Some 0 else None)" by (rule v)
    show "typical_vol_of ?close cfg ! t = (if 2 \<le> lookback_vol cfg then Some 0 else None)"
      by (rule b)
    show "slope_of ?close cfg ! t = Some 0" by (rule sl)
    show "\<not> is_volatile ?close cfg t" by (rule nv)
    show "labels ! t =
      (if 0 < slope_threshold cfg \<or> ?k + 199 \<le> int t then ''RANGE'' else ''UNCERTAIN'')"
      by (rule lab)
    show "labels ! t = ''RANGE''" if "thr_of ?close cfg ! t \<noteq> None"
      using that by (rule post)
  qed
qed

theorem constant_series_range_witness:
  "\<exists>labels. classify_regimes (replicate 5 1)
      (Some \<lparr>lookback_vol = 2, lookback_trend = 1, typical_vol_window = 2,
         vol_mult_high = 3 / 2, slope_threshold = 1 / 10\<rparr>) = Inr labels \<and>
     vol_of (replicate 5 1)
       \<lparr>lookback_vol = 2, lookback_trend = 1, typical_vol_window = 2,
         vol_mult_high = 3 / 2, slope_threshold = 1 / 10\<rparr> ! 4 = Some 0 \<and>
     labels ! 4 = ''RANGE''"
proof -
  let ?cfg = "\<lparr>lookback_vol = 2, lookback_trend = 1, typical_vol_window = 2,
         vol_mult_high = 3 / 2, slope_threshold = 1 / 10\<rparr>"
  have v: "valid_config ?cfg" by (simp add: valid_config_def int64_range_def)
  have c: "0 < (1 :: real)" by simp
  have g: "min_bars_needed ?cfg \<le> int 5" by (simp add: min_bars_needed_def)
  have t: "(4 :: nat) < 5" by simp
  have p: "min_bars_needed ?cfg - 1 \<le> int 4" by (simp add: min_bars_needed_def)
  from constant_series_range [OF v c g t p] show ?thesis by auto
qed

text \<open>
  The claim as stated, for every post-warm-up position, fails in auto mode: with windows
  2, 1, 2 and \<^verbatim>\<open>slope_threshold = 0\<close>, five equal prices pass the gate
  (\<^verbatim>\<open>min_bars = 5\<close>) and at index 4 the volatility, its baseline and the slope are all
  defined and 0, but the 200-point threshold is not, so the label stays \<^verbatim>\<open>UNCERTAIN\<close>.
\<close>

theorem constant_series_auto_threshold_counterexample:
  "valid_config \<lparr>lookback_vol = 2, lookback_trend = 1, typical_vol_window = 2,
      vol_mult_high = 3 / 2, slope_threshold = 0\<rparr> \<and>
   min_bars_needed \<lparr>lookback_vol = 2, lookback_trend = 1, typical_vol_window = 2,
      vol_mult_high = 3 / 2, slope_threshold = 0\<rparr> = 5 \<and>
   vol_of [1, 1, 1, 1, 1]
     \<lparr>lookback_vol = 2, lookback_trend = 1, typical_vol_window = 2,
      vol_mult_high = 3 / 2, slope_threshold = 0\<rparr> ! 4 = Some 0 \<and>
   typical_vol_of [1, 1, 1, 1, 1]
     \<lparr>lookback_vol = 2, lookback_trend = 1, typical_vol_window = 2,
      vol_mult_high = 3 / 2, slope_threshold = 0\<rparr> ! 4 = Some 0 \<and>
   slope_of [1, 1, 1, 1, 1]
     \<lparr>lookback_vol = 2, lookback_trend = 1, typical_vol_window = 2,
      vol_mult_high = 3 / 2, slope_threshold = 0\<rparr> ! 4 = Some 0 \<and>
   classify_regimes [1, 1, 1, 1, 1]
     (Some \<lparr>lookback_vol = 2, lookback_trend = 1, typical_vol_window = 2,
        vol_mult_high = 3 / 2, slope_threshold = 0\<rparr>) =
     Inr [''UNCERTAIN'', ''UNCERTAIN'', ''UNCERTAIN'', ''UNCERTAIN'', ''UNCERTAIN'']"
  by (simp add: eval_defs eval_nat_numeral)

subsection \<open>Failures\<close>

text \<open>
  Claim C7, as the code has it. The classifier validates nothing itself; what fails is
  what the library it calls rejects. For every configuration whose window sizes fit in a
  signed 64-bit integer and whose two rolling windows are not negative, the call returns
  one label per price: a zero window, a non-positive \<^verbatim>\<open>lookback_trend\<close>, a negative
  \<^verbatim>\<open>vol_mult_high\<close>, a non-positive price and a series that is too short are no failures.
  The call fails when \<^verbatim>\<open>lookback_vol\<close> or \<^verbatim>\<open>typical_vol_window\<close> is negative, and when
  \<^verbatim>\<open>lookback_trend\<close> is beyond the range of a double.
\<close>

theorem classify_failures:
  "(windows_in_range (config_or_default cfg_opt) \<longrightarrow>
      (\<exists>labels. classify_regimes close cfg_opt = Inr labels \<and> length labels = length close)) \<and>
   (lookback_vol (config_or_default cfg_opt) < 0 \<or>
    typical_vol_window (config_or_default cfg_opt) < 0 \<or>
    float_limit \<le> \<bar>lookback_trend (config_or_default cfg_opt)\<bar> \<longrightarrow>
      (\<exists>e. classify_regimes close cfg_opt = Inl e))"
proof (intro conjI impI)
  assume "windows_in_range (config_or_default cfg_opt)"
  then obtain labels where "classify_regimes close cfg_opt = Inr labels"
    and "length labels = length close" by (rule in_range_returns)
  then show "\<exists>labels. classify_regimes close cfg_opt = Inr labels \<and> length labels = length close"
    by blast
next
  assume "lookback_vol (config_or_default cfg_opt) < 0 \<or>
    typical_vol_window (config_or_default cfg_opt) < 0 \<or>
    float_limit \<le> \<bar>lookback_trend (config_or_default cfg_opt)\<bar>"
  then show "\<exists>e. classify_regimes close cfg_opt = Inl e"
    by (auto simp: classify_regimes_unfold Let_def)
qed

theorem classify_failures_witness:
  "(\<exists>labels. classify_regimes [1, 0, - 3]
      (Some \<lparr>lookback_vol = 0, lookback_trend = - 1, typical_vol_window = 1,
         vol_mult_high = - 1, slope_threshold = 1\<rparr>) = Inr labels \<and> length labels = 3) \<and>
   (\<exists>e. classify_regimes [1, 2, 3]
      (Some \<lparr>lookback_vol = 1, lookback_trend = 1, typical_vol_window = - 1,
         vol_mult_high = 3 / 2, slope_threshold = 1\<rparr>) = Inl e)"
  using classify_failures [of "Some \<lparr>lookback_vol = 0, lookback_trend = - 1,
        typical_vol_window = 1, vol_mult_high = - 1, slope_threshold = 1\<rparr>" "[1, 0, - 3]"]
    classify_failures [of "Some \<lparr>lookback_vol = 1, lookback_trend = 1,
        typical_vol_window = - 1, vol_mult_high = 3 / 2, slope_threshold = 1\<rparr>" "[1, 2, 3]"]
  by (simp add: windows_in_range_def int64_range_def numeral_3_eq_3)

text \<open>
  The claim as stated fails: a negative \<^verbatim>\<open>vol_mult_high\<close> together with the prices
  \<open>1, 0, -3\<close> returns labels, and so does a configuration whose three windows are 0.
\<close>

theorem no_validation_counterexample:
  "vol_mult_high \<lparr>lookback_vol = 1, lookback_trend = 1, typical_vol_window = 1,
      vol_mult_high = - 1, slope_threshold = 1\<rparr> < 0 \<and>
   classify_regimes [1, 0, - 3]
     (Some \<lparr>lookback_vol = 1, lookback_trend = 1, typical_vol_window = 1,
        vol_mult_high = - 1, slope_threshold = 1\<rparr>) = Inr [''UNCERTAIN'', ''RANGE'', ''TREND''] \<and>
   classify_regimes [1, 2, 3]
     (Some \<lparr>lookback_vol = 0, lookback_trend = 0, typical_vol_window = 0,
        vol_mult_high = 3 / 2, slope_threshold = 1\<rparr>) =
     Inr [''UNCERTAIN'', ''UNCERTAIN'', ''UNCERTAIN'']"
  by (simp add: eval_defs eval_nat_numeral)

subsection \<open>Non-positive slope threshold\<close>

text \<open>
  Claim C10. A strictly negative \<^verbatim>\<open>slope_threshold\<close> takes the same branch as 0 (the test is
  \<^verbatim>\<open>slope_threshold <= 0\<close>): the threshold series is not a fixed number but the rolling
  median of the absolute slope over 200 points, the labels returned once the gate has
  passed are computed from that series, and the whole result is that of the same call with
  \<^verbatim>\<open>slope_threshold = 0\<close>.
\<close>

theorem negative_threshold_selects_auto:
  assumes "slope_threshold cfg < 0"
  shows "classify_regimes close (Some cfg) =
           classify_regimes close (Some (cfg\<lparr>slope_threshold := 0\<rparr>)) \<and>
         thr_of close cfg = rolling_median_nat 200 (abs_series (slope_of close cfg)) \<and>
         thr_of close (cfg\<lparr>slope_threshold := 0\<rparr>) =
           rolling_median_nat 200 (abs_series (slope_of close cfg)) \<and>
         (\<forall>labels. classify_regimes close (Some cfg) = Inr labels \<and>
            min_bars_needed cfg \<le> int (length close) \<longrightarrow>
            labels = label_masks (replicate (length close) ''UNCERTAIN'') (vol_of close cfg)
              (typical_vol_of close cfg) (slope_of close cfg)
              (rolling_median_nat 200 (abs_series (slope_of close cfg))) (vol_mult_high cfg))"
proof (intro conjI allI impI)
  show "classify_regimes close (Some cfg) =
          classify_regimes close (Some (cfg\<lparr>slope_threshold := 0\<rparr>))"
    using assms
    by (simp add: classify_regimes_unfold Let_def min_bars_needed_def thr_of_def
        threshold_series_def vol_of_def typical_vol_of_def slope_of_def)
  show thr: "thr_of close cfg = rolling_median_nat 200 (abs_series (slope_of close cfg))"
    using assms by (simp add: thr_of_def threshold_series_def)
  show "thr_of close (cfg\<lparr>slope_threshold := 0\<rparr>) =
          rolling_median_nat 200 (abs_series (slope_of close cfg))"
    by (simp add: thr_of_def threshold_series_def slope_of_def)
  fix labels
  assume "classify_regimes close (Some cfg) = Inr labels \<and>
    min_bars_needed cfg \<le> int (length close)"
  then have "labels = label_masks (replicate (length close) ''UNCERTAIN'') (vol_of close cfg)
      (typical_vol_of close cfg) (slope_of close cfg) (thr_of close cfg) (vol_mult_high cfg)"
    by (simp add: classify_regimes_unfold Let_def split: if_splits)
  with thr show "labels = label_masks (replicate (length close) ''UNCERTAIN'')
      (vol_of close cfg) (typical_vol_of close cfg) (slope_of close cfg)
      (rolling_median_nat 200 (abs_series (slope_of close cfg))) (vol_mult_high cfg)"
    by simp
qed

theorem negative_threshold_selects_auto_witness:
  "thr_of (replicate 201 1)
     \<lparr>lookback_vol = 1, lookback_trend = 1, typical_vol_window = 1,
      vol_mult_high = 3 / 2, slope_threshold = - 1\<rparr> ! 200 = Some 0 \<and>
   thr_of (replicate 201 1)
     \<lparr>lookback_vol = 1, lookback_trend = 1, typical_vol_window = 1,
      vol_mult_high = 3 / 2, slope_threshold = - 1\<rparr> ! 199 = None \<and>
   (\<exists>labels. classify_regimes (replicate 201 1)
      (Some \<lparr>lookback_vol = 1, lookback_trend = 1, typical_vol_window = 1,
         vol_mult_high = 3 / 2, slope_threshold = - 1\<rparr>) = Inr labels \<and>
      classify_regimes (replicate 201 1)
      (Some \<lparr>lookback_vol = 1, lookback_trend = 1, typical_vol_window = 1,
         vol_mult_high = 3 / 2, slope_threshold = 0\<rparr>) = Inr labels \<and>
      labels ! 200 = ''RANGE'' \<and> labels ! 199 = ''UNCERTAIN'')"
proof -
  let ?neg = "\<lparr>lookback_vol = 1, lookback_trend = 1, typical_vol_window = 1,
      vol_mult_high = 3 / 2, slope_threshold = - 1 :: real\<rparr>"
  let ?zero = "\<lparr>lookback_vol = 1, lookback_trend = 1, typical_vol_window = 1,
      vol_mult_high = 3 / 2, slope_threshold = 0 :: real\<rparr>"
  let ?close = "replicate 201 (1 :: real)"
  have n: "slope_threshold ?neg < 0" by simp
  have z: "?neg\<lparr>slope_threshold := 0\<rparr> = ?zero" by simp
  from negative_threshold_selects_auto [OF n, of ?close]
  have same: "classify_regimes ?close (Some ?neg) = classify_regimes ?close (Some ?zero)"
    and thr: "thr_of ?close ?neg = rolling_median_nat 200 (abs_series (slope_of ?close ?neg))"
    unfolding z by blast+
  have a: "thr_of ?close ?neg ! 200 = Some 0"
    using thr_constant_auto [of ?neg 200 201 1] by simp
  have b: "thr_of ?close ?neg ! 199 = None"
    using thr_constant_auto [of ?neg 199 201 1] by simp
  have v: "valid_config ?zero" by (simp add: valid_config_def int64_range_def)
  have g: "min_bars_needed ?zero \<le> int 201" by (simp add: min_bars_needed_def)
  from constant_label_post [OF v _ g, of 1 200]
  obtain l1 where l1: "classify_regimes ?close (Some ?zero) = Inr l1" and r: "l1 ! 200 = ''RANGE''"
    by (auto simp: min_bars_needed_def)
  from constant_label_post [OF v _ g, of 1 199]
  obtain l2 where l2: "classify_regimes ?close (Some ?zero) = Inr l2"
    and u: "l2 ! 199 = ''UNCERTAIN''"
    by (auto simp: min_bars_needed_def)
  from l1 l2 have "l2 = l1" by simp
  with same l1 r u a b show ?thesis by simp
qed

section \<open>Properties of the decision gate\<close>

text \<open>
  The function of lines 2-34, taken by itself, is total and fail-safe: \<^verbatim>\<open>TREND\<close> allows
  trading at full size, \<^verbatim>\<open>RANGE\<close> at half size, and every other string gives the disabled
  decision with size 0.
\<close>

lemma decision_gate_body_fail_safe:
  "allow_trade (decision_gate_body ''TREND'') \<and>
   position_size (decision_gate_body ''TREND'') = 1 \<and>
   allow_trade (decision_gate_body ''RANGE'') \<and>
   position_size (decision_gate_body ''RANGE'') = 1 / 2 \<and>
   (\<forall>regime. regime \<noteq> ''TREND'' \<and> regime \<noteq> ''RANGE'' \<longrightarrow>
      \<not> allow_trade (decision_gate_body regime) \<and>
      position_size (decision_gate_body regime) = 0)"
  by (simp add: decision_gate_body_def)

lemma line1_has_zero_width_space: "has_zero_width_space module_line1"
  by (simp add: module_line1_def zero_width_space_def)

text \<open>
  Claim C8 against the shipped file. The claim says that the decision mapping returns a
  decision for every input string. The module cannot be loaded: its first line holds a
  zero-width space outside any string or comment, so every call, \<^verbatim>\<open>TREND\<close> included, ends
  in a SyntaxError and no decision is returned.
\<close>

theorem decision_gate_unloadable:
  "decision_gate regime = Inl SyntaxError \<and> decision_gate ''TREND'' = Inl SyntaxError"
  by (simp add: decision_gate_def load_module_def line1_has_zero_width_space)

end
